theory Spec2Isabelle
  imports Main "HOL-Library.Word"
begin

section \<open>Data model of sensors\_and\_messages.cpp\<close>

text \<open>
  The C++ \<open>int\<close> is taken as a 32-bit two's complement value (\<open>sint\<close> reads it).
  The program never does arithmetic on an \<open>int\<close>; it only compares two of them
  for equality, so the width plays no part in any result below.
  Objects that the program reaches through pointers (\<open>Message*\<close>, \<open>Sensor*\<close>)
  live in explicit stores indexed by addresses.
\<close>

type_synonym cint = "32 word"
type_synonym addr = nat

text \<open>\<open>struct Message { int dest_id; int hops; }\<close>\<close>

record Message =
  dest_id :: cint
  hops :: cint

text \<open>
  \<open>class Sensor\<close>: the node id, the flexible array \<open>int connections[]\<close>, the list
  \<open>std::list<Message*> messageList\<close> (front of the list is the head), and the mutex
  \<open>messageListMutex\<close>, which is \<open>True\<close> while some thread holds it.
\<close>

record Sensor =
  node_id :: cint
  connections :: "cint list"
  messageList :: "addr list"
  messageListMutex :: bool

text \<open>
  The state of the process: the store of \<open>Message\<close> objects, the store of \<open>Sensor\<close>
  objects, the global \<open>std::map<int, Sensor*> sensors\<close>, and the characters written to
  \<open>std::cout\<close> so far.
\<close>

record world =
  messages :: "addr \<rightharpoonup> Message"
  sensor_objs :: "addr \<rightharpoonup> Sensor"
  sensors :: "cint \<rightharpoonup> addr"
  cout :: string

text \<open>
  How a call can end without returning: \<open>lock()\<close> on a mutex that is held does not
  return until it is released, and \<open>front()\<close> of an empty \<open>std::list\<close> or a read
  through a pointer to no object is undefined behaviour.
\<close>

datatype stop = Blocks | UndefinedBehaviour

text \<open>The state at program start: no objects, the global map empty, nothing printed.\<close>

definition program_start :: world where
  "program_start = \<lparr>messages = Map.empty, sensor_objs = Map.empty,
                     sensors = Map.empty, cout = []\<rparr>"

section \<open>The operations\<close>

text \<open>
  \<open>Sensor::processMessages\<close> (lines 72 to 97), called on the sensor object at address
  \<open>this\<close>. In source order: lock the mutex; read \<open>messageList.front()\<close>; \<open>pop_front()\<close>;
  compare \<open>node_id\<close> with \<open>pmsg->dest_id\<close>, where both branches of the \<open>if\<close> hold
  comments only; unlock the mutex. Nothing follows the unlock but comments.
\<close>

definition processMessages :: "addr \<Rightarrow> world \<Rightarrow> stop + world" where
  "processMessages this w =
     (case sensor_objs w this of
        None \<Rightarrow> Inl UndefinedBehaviour
      | Some s \<Rightarrow>
          if messageListMutex s then Inl Blocks
          else
            let s_locked = s\<lparr>messageListMutex := True\<rparr> in
            (case messageList s_locked of
               [] \<Rightarrow> Inl UndefinedBehaviour
             | pmsg # rest \<Rightarrow>
                 let s_popped = s_locked\<lparr>messageList := rest\<rparr> in
                 (case messages w pmsg of
                    None \<Rightarrow> Inl UndefinedBehaviour
                  | Some m \<Rightarrow>
                      let s_branch = (if node_id s_popped = dest_id m
                                      then s_popped
                                      else s_popped);
                          s_unlocked = s_branch\<lparr>messageListMutex := False\<rparr>
                      in Inr (w\<lparr>sensor_objs := (sensor_objs w)(this \<mapsto> s_unlocked)\<rparr>))))"

text \<open>
  \<open>initialize_sensors(int N, int M)\<close> (lines 113 to 122): the body holds comments only.
  It has no \<open>throw\<close> and calls nothing, so it always returns, with the state as it was.
\<close>

definition initialize_sensors :: "cint \<Rightarrow> cint \<Rightarrow> world \<Rightarrow> stop + world" where
  "initialize_sensors N M w = Inr w"

text \<open>\<open>std::endl\<close> writes a newline (and flushes).\<close>

definition endl :: string where
  "endl = [CHR 0x0A]"

text \<open>\<open>test_thread\<close> (lines 125 to 128) prints one line.\<close>

definition test_thread :: "world \<Rightarrow> world" where
  "test_thread w = w\<lparr>cout := cout w @ ''hello from thread...'' @ endl\<rparr>"

text \<open>
  How \<open>main\<close> can end: it returns a value, or the process is ended by
  \<open>std::terminate\<close> because an exception leaves \<open>main\<close> uncaught.
\<close>

datatype exit_status = Returns cint | Terminates

text \<open>
  \<open>main\<close> (lines 131 to 142): print one line, construct a \<open>std::thread\<close> running
  \<open>test_thread\<close>, join it, return 0. The constructor of \<open>std::thread\<close> throws
  \<open>std::system_error\<close> when the system cannot start a thread; \<open>main\<close> has no
  \<open>try\<close>, so the exception ends the process through \<open>std::terminate\<close>, after the
  first line (written and flushed by \<open>std::endl\<close>) and before anything else. Whether
  the system starts the thread is not decided by the program: it is the parameter
  \<open>thread_starts\<close>. When the thread starts, the main thread does nothing between
  starting it and joining it, and its own line is written before the thread exists, so
  the only schedule is: main's line, the whole of \<open>test_thread\<close>, the return.
\<close>

definition main :: "cint \<Rightarrow> string list \<Rightarrow> bool \<Rightarrow> world \<Rightarrow> exit_status \<times> world" where
  "main argc argv thread_starts w =
     (let w1 = w\<lparr>cout := cout w @ ''calling the thread'' @ endl\<rparr> in
      if thread_starts
      then (let w2 = test_thread w1 in (Returns 0, w2))
      else (Terminates, w1))"

section \<open>Concrete states\<close>

text \<open>One sensor, id 0, stored at address 0, holding one message addressed to itself.\<close>

definition world_at_destination :: world where
  "world_at_destination =
     \<lparr>messages = [0 \<mapsto> \<lparr>dest_id = 0, hops = 0\<rparr>],
      sensor_objs = [0 \<mapsto> \<lparr>node_id = 0, connections = [], messageList = [0],
                            messageListMutex = False\<rparr>],
      sensors = [0 \<mapsto> 0], cout = []\<rparr>"

text \<open>
  Two sensors, ids 0 and 1, each the other's only connection; sensor 0 holds one message
  addressed to sensor 1, sensor 1 holds none.
\<close>

definition world_to_forward :: world where
  "world_to_forward =
     \<lparr>messages = [0 \<mapsto> \<lparr>dest_id = 1, hops = 0\<rparr>],
      sensor_objs = [0 \<mapsto> \<lparr>node_id = 0, connections = [1], messageList = [0],
                            messageListMutex = False\<rparr>,
                     1 \<mapsto> \<lparr>node_id = 1, connections = [0], messageList = [],
                            messageListMutex = False\<rparr>],
      sensors = [0 \<mapsto> 0, 1 \<mapsto> 1], cout = []\<rparr>"

text \<open>One sensor whose message list is empty and whose mutex is free.\<close>

definition world_idle :: world where
  "world_idle =
     \<lparr>messages = Map.empty,
      sensor_objs = [0 \<mapsto> \<lparr>node_id = 0, connections = [], messageList = [],
                            messageListMutex = False\<rparr>],
      sensors = [0 \<mapsto> 0], cout = []\<rparr>"

section \<open>General facts about \<open>processMessages\<close>\<close>

lemma processMessages_returns:
  assumes "sensor_objs w this = Some s" and "\<not> messageListMutex s"
    and "messageList s = pmsg # rest" and "messages w pmsg = Some m"
  shows "processMessages this w =
           Inr (w\<lparr>sensor_objs := (sensor_objs w)(this \<mapsto> s\<lparr>messageList := rest\<rparr>)\<rparr>)"
proof -
  from assms(2) have "s\<lparr>messageList := rest, messageListMutex := False\<rparr> = s\<lparr>messageList := rest\<rparr>"
    by (cases s) simp
  moreover from assms have "processMessages this w =
      Inr (w\<lparr>sensor_objs := (sensor_objs w)
             (this \<mapsto> s\<lparr>messageList := rest, messageListMutex := False\<rparr>)\<rparr>)"
    by (simp add: processMessages_def)
  ultimately show ?thesis
    by (simp only:)
qed

lemma processMessages_frame:
  assumes "processMessages this w = Inr w'"
  shows "messages w' = messages w" and "sensors w' = sensors w" and "cout w' = cout w"
    and "\<And>a. a \<noteq> this \<Longrightarrow> sensor_objs w' a = sensor_objs w a"
  using assms
  by (auto simp: processMessages_def Let_def split: option.splits if_splits list.splits)

section \<open>The claims\<close>

text \<open>
  C1. The claim: every message removed from a sensor's message list is either recorded
  in the results container or pushed onto exactly one neighbour's list, so that the
  histogram counts sum to N. The code at the claim's place: a sensor that holds one
  message addressed to itself removes it from its list and returns; the resulting state
  differs from the starting one in that list only, so the message is in no list and
  recorded nowhere.
\<close>

theorem processMessages_drops_delivered_message:
  "processMessages 0 world_at_destination =
     Inr \<lparr>messages = [0 \<mapsto> \<lparr>dest_id = 0, hops = 0\<rparr>],
          sensor_objs = [0 \<mapsto> \<lparr>node_id = 0, connections = [], messageList = [],
                                messageListMutex = False\<rparr>],
          sensors = [0 \<mapsto> 0], cout = []\<rparr>"
  by (simp add: processMessages_def world_at_destination_def)

text \<open>
  C2. The claim: a sensor that is not the addressee increments the message's hops by 1
  and pushes the message to a neighbour. The code at the claim's place: sensor 0 holds a
  message for sensor 1, its only connection. After the call the message still has hops
  0 and is in neither sensor's list.
\<close>

theorem processMessages_forwards_nothing:
  "processMessages 0 world_to_forward =
     Inr \<lparr>messages = [0 \<mapsto> \<lparr>dest_id = 1, hops = 0\<rparr>],
          sensor_objs = [0 \<mapsto> \<lparr>node_id = 0, connections = [1], messageList = [],
                                messageListMutex = False\<rparr>,
                         1 \<mapsto> \<lparr>node_id = 1, connections = [0], messageList = [],
                                messageListMutex = False\<rparr>],
          sensors = [0 \<mapsto> 0, 1 \<mapsto> 1], cout = []\<rparr>"
  by (simp add: processMessages_def world_to_forward_def fun_upd_twist)

text \<open>
  C3, as stated: for N = 4 and M = 1, where 2 * M + 2 \<le> N, initialisation fails with an
  error. It does not: the call returns.
\<close>

theorem initialize_sensors_error_counterexample:
  "2 * sint (1 :: cint) + 2 \<le> sint (4 :: cint)
   \<and> \<not> isl (initialize_sensors 4 1 program_start)"
  by (simp add: initialize_sensors_def)

text \<open>
  C3, amended: for every pair (N, M) with 2 * M + 2 \<le> N or M \<ge> N, the call returns
  without an error and with the state as it was, so neither graph construction nor
  message injection takes place.
\<close>

theorem initialize_sensors_unchecked:
  "2 * sint M + 2 \<le> sint N \<or> sint N \<le> sint M \<Longrightarrow> initialize_sensors N M w = Inr w"
  by (simp add: initialize_sensors_def)

theorem initialize_sensors_unchecked_witness:
  "(2 * sint (1 :: cint) + 2 \<le> sint (1 :: cint) \<or> sint (1 :: cint) \<le> sint (1 :: cint))
   \<and> initialize_sensors 1 1 program_start = Inr program_start"
proof -
  have h: "2 * sint (1 :: cint) + 2 \<le> sint (1 :: cint) \<or> sint (1 :: cint) \<le> sint (1 :: cint)"
    by simp
  from initialize_sensors_unchecked [OF h, of program_start] h show ?thesis
    by simp
qed

text \<open>
  C4. The claim: for a valid pair such as N = 4, M = 2 the builder produces a connected
  graph on N nodes, each with M neighbours. The code at the claim's place: called at
  program start with N = 4 and M = 2, it returns with the global map and the store of
  sensors still empty, so there is no node at all.
\<close>

theorem initialize_sensors_builds_no_network:
  "initialize_sensors 4 2 program_start = Inr program_start
   \<and> sensors program_start = Map.empty \<and> sensor_objs program_start = Map.empty"
  by (simp add: initialize_sensors_def program_start_def)

text \<open>
  C5. The claim: with an empty message list the operation blocks, so the front of an
  empty list is never read. The code at the claim's place: on a sensor whose list is
  empty and whose mutex is free the call does not block; it takes the mutex and reads
  \<open>front()\<close> of the empty list.
\<close>

theorem processMessages_reads_front_of_empty_list:
  "processMessages 0 world_idle = Inl UndefinedBehaviour"
  by (simp add: processMessages_def world_idle_def)

text \<open>
  C7. The claim: the program produces a sequence of (hop count, delivered count) pairs
  sorted by hop count. The code at the claim's place: started with the arguments
  N = 4 and M = 2, \<open>main\<close> writes the two greeting lines and nothing else when its
  thread starts, and the first of them only when it does not.
\<close>

theorem main_writes_no_histogram:
  "main 3 [''a.out'', ''4'', ''2''] True program_start =
     (Returns 0, program_start\<lparr>cout := ''calling the thread'' @ [CHR 0x0A]
                                        @ ''hello from thread...'' @ [CHR 0x0A]\<rparr>)
   \<and> main 3 [''a.out'', ''4'', ''2''] False program_start =
     (Terminates, program_start\<lparr>cout := ''calling the thread'' @ [CHR 0x0A]\<rparr>)"
  by (simp add: main_def test_thread_def endl_def program_start_def)

text \<open>
  C8. The claim: at simulation start one message with hop count 0 and a destination
  other than its origin is constructed per node and pushed into that node's list. The
  code at the claim's place: called at program start with N = 2 and M = 1, it returns
  with the store of messages still empty.
\<close>

theorem initialize_sensors_injects_no_message:
  "initialize_sensors 2 1 program_start = Inr program_start
   \<and> messages program_start = Map.empty"
  by (simp add: initialize_sensors_def program_start_def)

text \<open>
  C9, as stated: every invocation of \<open>main\<close> prints the two greeting lines and returns
  0. It does not when the system cannot start the thread: the process is terminated
  after the first line, without a return value.
\<close>

theorem main_always_returns_counterexample:
  "fst (main 1 [''a.out''] False program_start) \<noteq> Returns 0
   \<and> cout (snd (main 1 [''a.out''] False program_start)) =
       ''calling the thread'' @ [CHR 0x0A]"
  by (simp add: main_def endl_def program_start_def)

text \<open>
  C9, amended: for every \<open>argc\<close>, \<open>argv\<close> and starting state, \<open>main\<close> does not read
  its arguments and runs no simulation (the stores of messages and sensors and the
  global map are as before); it changes the state only by appending greeting lines to
  the output. When the thread starts it appends the main thread's line and then the test
  thread's line and returns 0; when the thread cannot be started it appends the main
  thread's line only and the process is terminated.
\<close>

theorem main_greets_and_ignores_arguments:
  "main argc argv thread_starts w =
     (if thread_starts
      then (Returns 0, w\<lparr>cout := cout w @ ''calling the thread'' @ endl
                                        @ ''hello from thread...'' @ endl\<rparr>)
      else (Terminates, w\<lparr>cout := cout w @ ''calling the thread'' @ endl\<rparr>))"
  by (simp add: main_def test_thread_def)

text \<open>
  C10. For every pair of integers N and M and every state, \<open>initialize_sensors\<close>
  returns without an error and with the state as it was: the global map, the sensors
  and the messages are untouched.
\<close>

theorem initialize_sensors_noop:
  "initialize_sensors N M w = Inr w"
  by (simp add: initialize_sensors_def)

end
